theory Spec2Isabelle
  imports Main "HOL-Library.Sublist"
begin

section \<open>The VitePress site configuration of F2 (docs/.vitepress/config.mts)\<close>

text \<open>
  The module builds one object literal and hands it to the framework's
  \<^verbatim>\<open>defineConfig\<close>. There is no arithmetic and no control flow: the model
  is the literal itself, written as a value of a small datatype of JavaScript values,
  and the two nullary functions \<^verbatim>\<open>cn_nav\<close> and \<^verbatim>\<open>en_nav\<close>.
\<close>

subsection \<open>JavaScript values\<close>

text \<open>
  An object literal is kept as the list of its \<open>key: value\<close> entries in the order
  they are written, so that the keys, their order and a possible repetition of a key are
  data of the model. Strings are byte strings: the ASCII literals of the source are
  written as they are, the Chinese texts and the copyright sign as the UTF-8 bytes of the
  source file.
\<close>

datatype js_value =
    JStr string
  | JNum int
  | JBool bool
  | JArr "js_value list"
  | JObj "(string \<times> js_value) list"

text \<open>The keys of an object, as written (\<open>[]\<close> for a value that is no object).\<close>

fun js_keys :: "js_value \<Rightarrow> string list" where
  "js_keys (JObj fs) = map fst fs"
| "js_keys _ = []"

text \<open>
  Property access \<open>o.k\<close>: \<open>None\<close> stands for \<^verbatim>\<open>undefined\<close>. In a literal
  that repeats a key the last entry is the one JavaScript keeps, hence the \<open>rev\<close>.
\<close>

fun js_get :: "js_value \<Rightarrow> string \<Rightarrow> js_value option" where
  "js_get (JObj fs) k = map_of (rev fs) k"
| "js_get _ k = None"

text \<open>A chain of property accesses \<open>o.k1.k2...\<close>.\<close>

fun js_path :: "js_value \<Rightarrow> string list \<Rightarrow> js_value option" where
  "js_path v [] = Some v"
| "js_path v (k # ks) = (case js_get v k of None \<Rightarrow> None | Some w \<Rightarrow> js_path w ks)"

text \<open>The elements of an array (\<open>[]\<close> for a value that is no array).\<close>

fun js_elems :: "js_value \<Rightarrow> js_value list" where
  "js_elems (JArr xs) = xs"
| "js_elems _ = []"

subsection \<open>The module\<close>

text \<open>\<^verbatim>\<open>const version = "v0.0.1-pw.1"\<close>\<close>

definition version :: string where
  "version = ''v0.0.1-pw.1''"

text \<open>
  \<^verbatim>\<open>function cn_nav(): DefaultTheme.NavItem[]\<close>. The entry text
  \<^verbatim>\<open>pkg.version\<close> is commented out in the source; the function reads the
  constant \<open>version\<close> only.
\<close>

definition cn_nav :: "js_value list" where
  "cn_nav =
    [ JObj
        [ (''text'', JStr [CHR 0xE6, CHR 0x8C, CHR 0x87, CHR 0xE5, CHR 0x8D, CHR 0x97]),
          (''link'', JStr ''/guide/what-is-f2''),
          (''activeMatch'', JStr ''/guide/'') ],
      JObj
        [ (''text'', JStr [CHR 0xE5, CHR 0x8F, CHR 0x82, CHR 0xE8, CHR 0x80, CHR 0x83]),
          (''link'', JStr ''/reference/site-config''),
          (''activeMatch'', JStr ''/reference/'') ],
      JObj
        [ (''text'', JStr version),
          (''items'', JArr
            [ JObj
                [ (''text'', JStr [CHR 0xE6, CHR 0x9B, CHR 0xB4, CHR 0xE6, CHR 0x96, CHR 0xB0,
                                   CHR 0xE6, CHR 0x97, CHR 0xA5, CHR 0xE5, CHR 0xBF, CHR 0x97]),
                  (''link'', JStr ''https://github.com/Johnserf-Seed/f2/blob/main/CHANGELOG.md'') ],
              JObj
                [ (''text'', JStr [CHR 0xE8, CHR 0xB4, CHR 0xA1, CHR 0xE7, CHR 0x8C, CHR 0xAE,
                                   CHR 0xE6, CHR 0x8C, CHR 0x87, CHR 0xE5, CHR 0x8D, CHR 0x97]),
                  (''link'', JStr ''https://github.com/Johnserf-Seed/f2/blob/main/.github/contributing.md'') ]
            ]) ]
    ]"

text \<open>\<^verbatim>\<open>function en_nav(): DefaultTheme.NavItem[]\<close>\<close>

definition en_nav :: "js_value list" where
  "en_nav =
    [ JObj
        [ (''text'', JStr ''guide''),
          (''link'', JStr ''/en/guide/what-is-f2''),
          (''activeMatch'', JStr ''/guide/'') ],
      JObj
        [ (''text'', JStr ''reference''),
          (''link'', JStr ''/en/reference/site-config''),
          (''activeMatch'', JStr ''/reference/'') ],
      JObj
        [ (''text'', JStr version),
          (''items'', JArr
            [ JObj
                [ (''text'', JStr ''Changelog''),
                  (''link'', JStr ''https://github.com/Johnserf-Seed/f2/blob/main/CHANGELOG.md'') ],
              JObj
                [ (''text'', JStr ''Contributing''),
                  (''link'', JStr ''https://github.com/Johnserf-Seed/f2/blob/main/.github/contributing.md'') ]
            ]) ]
    ]"

text \<open>
  The object literal passed to \<^verbatim>\<open>defineConfig\<close> (lines 12 to 100 of the
  source). A head tag \<^verbatim>\<open>['link', {...}]\<close> is a two-element array.
\<close>

definition config :: js_value where
  "config = JObj
    [ (''title'', JStr ''F2''),
      (''description'', JStr ''Fast 2 Every''),
      (''base'', JStr ''/f2/''),
      (''lastUpdated'', JBool True),
      (''head'', JArr
        [ JArr [ JStr ''link'',
                 JObj [ (''rel'', JStr ''icon''),
                        (''type'', JStr ''image/svg+xml''),
                        (''href'', JStr ''/f2-logo.ico'') ] ] ]),
      (''themeConfig'', JObj
        [ (''logo'', JObj [ (''src'', JStr ''/f2-logo.ico''),
                            (''width'', JNum 256),
                            (''height'', JNum 256) ]),
          (''socialLinks'', JArr
            [ JObj [ (''icon'', JStr ''github''),
                     (''link'', JStr ''https://github.com/Johnserf-Seed/f2'') ],
              JObj [ (''icon'', JStr ''discord''),
                     (''link'', JStr ''https://discord.gg/3PhtPmgHf8'') ] ]),
          (''algolia'', JObj
            [ (''appId'', JStr ''''),
              (''apiKey'', JStr ''''),
              (''indexName'', JStr ''f2'') ]),
          (''footer'', JObj
            [ (''message'', JStr ''Released under the Apache-2.0 license.''),
              (''copyright'', JStr (''Copyright '' @ [CHR 0xC2, CHR 0xA9] @
                                    '' 2023-present Johnserf Seed'')) ]),
          (''editLink'', JObj
            [ (''pattern'', JStr ''https://github.com/Johnserf-Seed/f2/edit/main/docs/:path''),
              (''text'', JStr ''Edit this page on GitHub'') ]) ]),
      (''locales'', JObj
        [ (''root'', JObj
            [ (''label'', JStr [CHR 0xE7, CHR 0xAE, CHR 0x80, CHR 0xE4, CHR 0xBD, CHR 0x93,
                                CHR 0xE4, CHR 0xB8, CHR 0xAD, CHR 0xE6, CHR 0x96, CHR 0x87]),
              (''lang'', JStr ''zh''),
              (''themeConfig'', JObj
                [ (''nav'', JArr cn_nav),
                  (''sidebar'', JObj
                    [ (''/'', JArr
                        [ JObj
                            [ (''text'', JStr [CHR 0xE5, CHR 0xBF, CHR 0xAB, CHR 0xE9, CHR 0x80, CHR 0x9F,
                                               CHR 0xE5, CHR 0x85, CHR 0xA5, CHR 0xE9, CHR 0x97, CHR 0xA8]),
                              (''items'', JArr
                                [ JObj [ (''text'', JStr [CHR 0xE5, CHR 0xAE, CHR 0x89,
                                                          CHR 0xE8, CHR 0xA3, CHR 0x85]),
                                         (''link'', JStr ''/install'') ],
                                  JObj [ (''text'', JStr [CHR 0xE5, CHR 0xBF, CHR 0xAB, CHR 0xE9, CHR 0x80, CHR 0x9F,
                                                          CHR 0xE4, CHR 0xBD, CHR 0xBF, CHR 0xE7, CHR 0x94, CHR 0xA8]),
                                         (''link'', JStr ''/quick-start'') ],
                                  JObj [ (''text'', JStr [CHR 0xE8, CHR 0xBF, CHR 0x9B, CHR 0xE9, CHR 0x98, CHR 0xB6,
                                                          CHR 0xE7, CHR 0x94, CHR 0xA8, CHR 0xE6, CHR 0xB3, CHR 0x95]),
                                         (''link'', JStr ''/advance-guide'') ] ]) ] ]),
                      (''/guide/'', JArr
                        [ JObj
                            [ (''text'', JStr [CHR 0xE6, CHR 0x8C, CHR 0x87, CHR 0xE5, CHR 0x8D, CHR 0x97]),
                              (''items'', JArr
                                [ JObj [ (''text'', JStr [CHR 0xE4, CHR 0xBD, CHR 0xBF, CHR 0xE7, CHR 0x94, CHR 0xA8,
                                                          CHR 0xE7, CHR 0xA4, CHR 0xBA, CHR 0xE4, CHR 0xBE, CHR 0x8B]),
                                         (''link'', JStr ''/api-examples'') ] ]) ] ]) ]) ]) ]),
          (''en'', JObj
            [ (''label'', JStr ''English''),
              (''lang'', JStr ''en''),
              (''themeConfig'', JObj
                [ (''nav'', JArr en_nav),
                  (''sidebar'', JObj
                    [ (''/'', JArr
                        [ JObj
                            [ (''text'', JStr ''Quick Start''),
                              (''items'', JArr
                                [ JObj [ (''text'', JStr ''Install''),
                                         (''link'', JStr ''/en/install'') ],
                                  JObj [ (''text'', JStr ''Quick Start''),
                                         (''link'', JStr ''/en/quick-start'') ],
                                  JObj [ (''text'', JStr ''Advance Guide''),
                                         (''link'', JStr ''/en/advance-guide'') ] ]) ] ]),
                      (''/guide/'', JArr
                        [ JObj
                            [ (''text'', JStr ''Guide''),
                              (''items'', JArr
                                [ JObj [ (''text'', JStr ''API Examples''),
                                         (''link'', JStr ''/api-examples'') ] ]) ] ]) ]) ]) ]) ]) ]"

text \<open>
  What the module reads from outside while it is evaluated (lines 4 to 7 of the source):
  its own URL \<^verbatim>\<open>import.meta.url\<close>, and Node's \<^verbatim>\<open>createRequire\<close>,
  which turns a URL into a loader of modules by name. Both the call of
  \<^verbatim>\<open>createRequire\<close> and the call of the loader it returns can throw: \<open>Inl e\<close>
  is a call that throws the value \<open>e\<close>, \<open>Inr v\<close> one that returns \<open>v\<close>.
\<close>

record module_env =
  import_meta_url :: string
  createRequire :: "string \<Rightarrow> js_value + (string \<Rightarrow> js_value + js_value)"

text \<open>
  Evaluating the module's top level in an environment, statement by statement:
  \<^verbatim>\<open>const require = createRequire(import.meta.url)\<close>, then
  \<^verbatim>\<open>const pkg = require('vitepress/package.json')\<close>, then the object literal.
  A throw in either call ends the evaluation with the thrown value, before any
  configuration is built. On success the result is the argument of
  \<^verbatim>\<open>defineConfig\<close>. The constant \<^verbatim>\<open>pkg\<close> is bound and never read.
\<close>

definition load_config :: "module_env \<Rightarrow> js_value + js_value" where
  "load_config env =
     (case createRequire env (import_meta_url env) of
        Inl e \<Rightarrow> Inl e
      | Inr require \<Rightarrow>
          (case require ''vitepress/package.json'' of
             Inl e \<Rightarrow> Inl e
           | Inr pkg \<Rightarrow> Inr config))"





subsection \<open>Reading the configuration\<close>

text \<open>The \<open>link\<close> of a sidebar or navigation item, when it has one that is a string.\<close>

definition item_link :: "js_value \<Rightarrow> string option" where
  "item_link i = (case js_get i ''link'' of Some (JStr l) \<Rightarrow> Some l | _ \<Rightarrow> None)"

text \<open>The links of the \<open>items\<close> of one group (or of one dropdown entry), in order.\<close>

definition group_links :: "js_value \<Rightarrow> string option list" where
  "group_links g = (case js_get g ''items'' of Some (JArr xs) \<Rightarrow> map item_link xs | _ \<Rightarrow> [])"

text \<open>\<open>locales.l.themeConfig.sidebar\<close>, the sidebar mapping of the locale \<open>l\<close>.\<close>

definition locale_sidebar :: "string \<Rightarrow> js_value option" where
  "locale_sidebar l = js_path config [''locales'', l, ''themeConfig'', ''sidebar'']"

text \<open>
  The links under the URL prefix \<open>p\<close> of the sidebar of the locale \<open>l\<close>: one list per
  group.
\<close>

definition sidebar_links :: "string \<Rightarrow> string \<Rightarrow> string option list list option" where
  "sidebar_links l p =
     (case locale_sidebar l of
        None \<Rightarrow> None
      | Some s \<Rightarrow> map_option (\<lambda>v. map group_links (js_elems v)) (js_get s p))"

text \<open>
  The shape of a sidebar mapping: its URL prefixes as written, each with the number of
  items of every group under it.
\<close>

fun sidebar_shape :: "js_value \<Rightarrow> (string \<times> nat list) list" where
  "sidebar_shape (JObj fs) =
     map (\<lambda>(p, v). (p, map (\<lambda>g. length (group_links g)) (js_elems v))) fs"
| "sidebar_shape _ = []"

text \<open>A link that lives under the English path prefix.\<close>

definition under_en :: "string option \<Rightarrow> bool" where
  "under_en l = (case l of Some s \<Rightarrow> prefix ''/en/'' s | None \<Rightarrow> False)"

subsection \<open>Property access on literals without repeated keys\<close>

text \<open>
  Where no key is written twice, property access finds the entry as it is written: the
  order of the entries does not matter.
\<close>

lemma js_get_distinct:
  assumes "distinct (map fst fs)"
  shows "js_get (JObj fs) k = map_of fs k"
proof -
  have "distinct (map fst (rev fs))"
    using assms by (simp only: rev_map [symmetric] distinct_rev)
  moreover have "set (rev fs) = set fs"
    by simp
  ultimately have "map_of (rev fs) = map_of fs"
    using assms by (simp add: map_of_inject_set)
  then show ?thesis
    by simp
qed



text \<open>The shape of each sidebar mapping.\<close>

lemma root_sidebar_shape:
  "map_option sidebar_shape (locale_sidebar ''root'') = Some [(''/'', [3]), (''/guide/'', [1])]"
  by (simp add: locale_sidebar_def config_def group_links_def)

lemma en_sidebar_shape:
  "map_option sidebar_shape (locale_sidebar ''en'') = Some [(''/'', [3]), (''/guide/'', [1])]"
  by (simp add: locale_sidebar_def config_def group_links_def)

subsection \<open>The search-provider record\<close>

text \<open>
  C1, as the spec states it: all three of \<open>appId\<close>, \<open>apiKey\<close> and \<open>indexName\<close> of
  the \<open>algolia\<close> record are empty strings. This fails: \<open>indexName\<close> is \<open>'f2'\<close>.
\<close>

theorem algolia_all_empty_counterexample:
  "\<not> (js_path config [''themeConfig'', ''algolia'', ''appId''] = Some (JStr '''') \<and>
      js_path config [''themeConfig'', ''algolia'', ''apiKey''] = Some (JStr '''') \<and>
      js_path config [''themeConfig'', ''algolia'', ''indexName''] = Some (JStr ''''))"
  by (simp add: config_def)

text \<open>
  C1, amended: in the theme config, the \<open>algolia\<close> record has exactly the fields
  \<open>appId\<close>, \<open>apiKey\<close> and \<open>indexName\<close>; \<open>appId\<close> and \<open>apiKey\<close> are empty
  strings, and \<open>indexName\<close> is the string \<open>'f2'\<close>.
\<close>

theorem algolia_credentials:
  "map_option js_keys (js_path config [''themeConfig'', ''algolia'']) =
     Some [''appId'', ''apiKey'', ''indexName''] \<and>
   js_path config [''themeConfig'', ''algolia'', ''appId''] = Some (JStr '''') \<and>
   js_path config [''themeConfig'', ''algolia'', ''apiKey''] = Some (JStr '''') \<and>
   js_path config [''themeConfig'', ''algolia'', ''indexName''] = Some (JStr ''f2'')"
  by (simp add: config_def)

subsection \<open>The navigation builders\<close>

text \<open>
  C2: each of the two declared locales, \<open>root\<close> and \<open>en\<close>, takes its navigation from
  its builder (\<open>cn_nav\<close>, resp. \<open>en_nav\<close>), and each builder returns a non-empty
  sequence of exactly three entries in a fixed order: the guide entry (a link into the
  guide, active under \<open>/guide/\<close>), the reference entry (a link into the reference,
  active under \<open>/reference/\<close>), and the version dropdown (its text is \<open>version\<close>, it
  has no link and two child items).
\<close>

theorem nav_three_entries:
  "map_option js_keys (js_get config ''locales'') = Some [''root'', ''en''] \<and>
   js_path config [''locales'', ''root'', ''themeConfig'', ''nav''] = Some (JArr cn_nav) \<and>
   js_path config [''locales'', ''en'', ''themeConfig'', ''nav''] = Some (JArr en_nav) \<and>
   cn_nav \<noteq> [] \<and> length cn_nav = 3 \<and>
   map item_link cn_nav = [Some ''/guide/what-is-f2'', Some ''/reference/site-config'', None] \<and>
   map (\<lambda>i. js_get i ''activeMatch'') cn_nav =
     [Some (JStr ''/guide/''), Some (JStr ''/reference/''), None] \<and>
   map (\<lambda>i. js_get i ''text'') (drop 2 cn_nav) = [Some (JStr version)] \<and>
   map (\<lambda>i. length (group_links i)) cn_nav = [0, 0, 2] \<and>
   en_nav \<noteq> [] \<and> length en_nav = 3 \<and>
   map item_link en_nav =
     [Some ''/en/guide/what-is-f2'', Some ''/en/reference/site-config'', None] \<and>
   map (\<lambda>i. js_get i ''activeMatch'') en_nav =
     [Some (JStr ''/guide/''), Some (JStr ''/reference/''), None] \<and>
   map (\<lambda>i. js_get i ''text'') (drop 2 en_nav) = [Some (JStr version)] \<and>
   map (\<lambda>i. length (group_links i)) en_nav = [0, 0, 2]"
  by (simp add: config_def cn_nav_def en_nav_def item_link_def group_links_def)

text \<open>
  C3, as the spec states it: every navigation item the builders produce has a display
  text, a link target and an active-match prefix. This fails in both builders at the
  third item, the version dropdown, which has neither a link nor an active-match prefix.
\<close>

theorem nav_items_all_three_counterexample:
  "\<not> list_all (\<lambda>i. js_get i ''text'' \<noteq> None \<and> js_get i ''link'' \<noteq> None \<and>
                    js_get i ''activeMatch'' \<noteq> None) cn_nav \<and>
   \<not> list_all (\<lambda>i. js_get i ''text'' \<noteq> None \<and> js_get i ''link'' \<noteq> None \<and>
                    js_get i ''activeMatch'' \<noteq> None) en_nav \<and>
   js_get (cn_nav ! 2) ''link'' = None \<and> js_get (cn_nav ! 2) ''activeMatch'' = None \<and>
   js_get (en_nav ! 2) ''link'' = None \<and> js_get (en_nav ! 2) ''activeMatch'' = None"
  by (simp add: cn_nav_def en_nav_def)

text \<open>
  C3, amended: every navigation item the builders produce has a display text. The first
  two items of each builder (guide and reference) have, besides the text, a link target
  and an active-match prefix and nothing else. The third item (the version dropdown) has
  a text and a list of child items and nothing else; each of its two children has a text
  and a link target only.
\<close>

theorem nav_item_fields:
  "list_all (\<lambda>i. js_get i ''text'' \<noteq> None) (cn_nav @ en_nav) \<and>
   list_all (\<lambda>i. js_get i ''link'' \<noteq> None \<and> js_get i ''activeMatch'' \<noteq> None)
     (take 2 cn_nav @ take 2 en_nav) \<and>
   map js_keys cn_nav =
     [[''text'', ''link'', ''activeMatch''], [''text'', ''link'', ''activeMatch''],
      [''text'', ''items'']] \<and>
   map js_keys en_nav =
     [[''text'', ''link'', ''activeMatch''], [''text'', ''link'', ''activeMatch''],
      [''text'', ''items'']] \<and>
   map (\<lambda>i. map_option (\<lambda>v. map js_keys (js_elems v)) (js_get i ''items'')) cn_nav =
     [None, None, Some [[''text'', ''link''], [''text'', ''link'']]] \<and>
   map (\<lambda>i. map_option (\<lambda>v. map js_keys (js_elems v)) (js_get i ''items'')) en_nav =
     [None, None, Some [[''text'', ''link''], [''text'', ''link'']]]"
  by (simp add: cn_nav_def en_nav_def)

text \<open>
  C9: in \<open>en_nav\<close> the active-match prefixes of the guide and reference entries are
  \<open>/guide/\<close> and \<open>/reference/\<close>, the same as in \<open>cn_nav\<close>, although the links of
  these two English entries are under \<open>/en/\<close>.
\<close>

theorem en_nav_active_match:
  "map (\<lambda>i. js_get i ''activeMatch'') (take 2 en_nav) =
     [Some (JStr ''/guide/''), Some (JStr ''/reference/'')] \<and>
   map (\<lambda>i. js_get i ''activeMatch'') (take 2 en_nav) =
     map (\<lambda>i. js_get i ''activeMatch'') (take 2 cn_nav) \<and>
   list_all (\<lambda>i. under_en (item_link i)) (take 2 en_nav) \<and>
   map item_link (take 2 en_nav) =
     [Some ''/en/guide/what-is-f2'', Some ''/en/reference/site-config'']"
  by (simp add: cn_nav_def en_nav_def item_link_def under_en_def)

subsection \<open>The two locales\<close>

text \<open>
  C4: the two locales are structurally parallel. \<open>cn_nav\<close> and \<open>en_nav\<close> have the
  same length (and the same keys item by item); the two sidebar mappings have the same
  URL prefixes, and under each prefix the same number of groups with the same number of
  items: one group of three items under \<open>/\<close>, one group of one item under
  \<open>/guide/\<close>.
\<close>

theorem locales_parallel:
  "length cn_nav = length en_nav \<and>
   map js_keys cn_nav = map js_keys en_nav \<and>
   map_option sidebar_shape (locale_sidebar ''root'') = Some [(''/'', [3]), (''/guide/'', [1])] \<and>
   map_option sidebar_shape (locale_sidebar ''en'') = Some [(''/'', [3]), (''/guide/'', [1])] \<and>
   map_option sidebar_shape (locale_sidebar ''root'') =
     map_option sidebar_shape (locale_sidebar ''en'')"
proof -
  have nav: "map js_keys cn_nav = map js_keys en_nav"
    by (simp add: cn_nav_def en_nav_def)
  then have "length (map js_keys cn_nav) = length (map js_keys en_nav)"
    by (rule arg_cong)
  then have len: "length cn_nav = length en_nav"
    by simp
  from len nav root_sidebar_shape en_sidebar_shape show ?thesis
    by (simp only: simp_thms)
qed

text \<open>
  C6: in the sidebar mapping of each locale the URL-prefix keys are \<open>/\<close> and
  \<open>/guide/\<close>, each written exactly once: the keys are pairwise distinct.
\<close>

theorem sidebar_keys_distinct:
  "map_option js_keys (locale_sidebar ''root'') = Some [''/'', ''/guide/''] \<and>
   map_option js_keys (locale_sidebar ''en'') = Some [''/'', ''/guide/''] \<and>
   map_option (\<lambda>s. distinct (js_keys s)) (locale_sidebar ''root'') = Some True \<and>
   map_option (\<lambda>s. distinct (js_keys s)) (locale_sidebar ''en'') = Some True \<and>
   map_option (\<lambda>s. map (count_list (js_keys s)) [''/'', ''/guide/''])
     (locale_sidebar ''root'') = Some [1, 1] \<and>
   map_option (\<lambda>s. map (count_list (js_keys s)) [''/'', ''/guide/''])
     (locale_sidebar ''en'') = Some [1, 1]"
  by (simp add: locale_sidebar_def config_def)

text \<open>
  C7: the \<open>locales\<close> mapping has exactly the two keys \<open>root\<close> and \<open>en\<close>, and they
  are distinct.
\<close>

theorem locale_keys_distinct:
  "map_option js_keys (js_get config ''locales'') = Some [''root'', ''en''] \<and>
   map_option (\<lambda>l. distinct (js_keys l)) (js_get config ''locales'') = Some True"
  by (simp add: config_def)

text \<open>
  C10: in the English sidebar the single item of the \<open>/guide/\<close> group links to
  \<open>/api-examples\<close>, which is not under \<open>/en/\<close>, whereas every item of the English
  \<open>/\<close> group links under \<open>/en/\<close>; the \<open>/guide/\<close> item of the root locale links to
  the same target \<open>/api-examples\<close>.
\<close>

theorem en_guide_sidebar_link:
  "sidebar_links ''en'' ''/guide/'' = Some [[Some ''/api-examples'']] \<and>
   \<not> under_en (Some ''/api-examples'') \<and>
   sidebar_links ''en'' ''/'' =
     Some [[Some ''/en/install'', Some ''/en/quick-start'', Some ''/en/advance-guide'']] \<and>
   map_option (list_all (list_all under_en)) (sidebar_links ''en'' ''/'') = Some True \<and>
   sidebar_links ''root'' ''/guide/'' = Some [[Some ''/api-examples'']] \<and>
   sidebar_links ''root'' ''/guide/'' = sidebar_links ''en'' ''/guide/''"
  by (simp add: sidebar_links_def locale_sidebar_def config_def group_links_def
      item_link_def under_en_def)

subsection \<open>The record as a whole\<close>

text \<open>
  C8: the record passed to the framework has exactly the top-level keys \<open>title\<close>,
  \<open>description\<close>, \<open>base\<close>, \<open>lastUpdated\<close>, \<open>head\<close>, \<open>themeConfig\<close> and
  \<open>locales\<close>, each once, and the keys of its \<open>themeConfig\<close> record are among
  \<open>logo\<close>, \<open>socialLinks\<close>, \<open>algolia\<close>, \<open>footer\<close>, \<open>editLink\<close>, \<open>nav\<close> and
  \<open>sidebar\<close> (they are the first five of these).
\<close>

theorem config_keys:
  "js_keys config =
     [''title'', ''description'', ''base'', ''lastUpdated'', ''head'', ''themeConfig'',
      ''locales''] \<and>
   distinct (js_keys config) \<and>
   map_option js_keys (js_get config ''themeConfig'') =
     Some [''logo'', ''socialLinks'', ''algolia'', ''footer'', ''editLink''] \<and>
   map_option
     (\<lambda>t. set (js_keys t) \<subseteq>
        set [''logo'', ''socialLinks'', ''algolia'', ''footer'', ''editLink'', ''nav'',
             ''sidebar''])
     (js_get config ''themeConfig'') = Some True"
  by (simp add: config_def)


lemma load_config_throws:
  assumes "load_config env = Inl e"
  shows "createRequire env (import_meta_url env) = Inl e \<or>
    (\<exists>require. createRequire env (import_meta_url env) = Inr require \<and>
       require ''vitepress/package.json'' = Inl e)"
  using assms by (auto simp: load_config_def split: sum.splits)





end
